theory Spec2Isabelle
  imports Main
begin

section \<open>JavaScript values\<close>

text \<open>
  The values that travel through the program are JSON values: what \<^verbatim>\<open>r.json()\<close> and
  \<^verbatim>\<open>JSON.parse\<close> return. A value that may be \<^verbatim>\<open>undefined\<close> is a \<open>json option\<close>,
  with \<open>None\<close> for \<^verbatim>\<open>undefined\<close>. Strings are byte strings holding the UTF-8 form of
  a well-formed JavaScript string. Numbers are the integers (the percentages of the
  program); a number with a fraction is outside the model. The two zeros of JavaScript
  are one \<open>JNum 0\<close>: the program cannot tell them apart. An object is the list of its
  own properties, in property order.
\<close>

datatype json =
    JNull
  | JBool bool
  | JNum int
  | JStr string
  | JArr "json list"
  | JObj "(string \<times> json) list"

text \<open>\<^verbatim>\<open>ToBoolean\<close>: what \<^verbatim>\<open>if (x)\<close>, \<^verbatim>\<open>!x\<close>, \<^verbatim>\<open>x && y\<close> and \<^verbatim>\<open>x || y\<close> test.\<close>

fun truthy :: "json \<Rightarrow> bool" where
  "truthy JNull = False"
| "truthy (JBool b) = b"
| "truthy (JNum n) = (n \<noteq> 0)"
| "truthy (JStr s) = (s \<noteq> [])"
| "truthy (JArr xs) = True"
| "truthy (JObj ps) = True"

fun truthy_opt :: "json option \<Rightarrow> bool" where
  "truthy_opt None = False"
| "truthy_opt (Some v) = truthy v"

text \<open>
  Reading a property \<^verbatim>\<open>v.name\<close> of a value that is neither \<^verbatim>\<open>null\<close> nor
  \<^verbatim>\<open>undefined\<close>, for a name that no prototype defines (the program reads
  \<^verbatim>\<open>error\<close>, \<^verbatim>\<open>verdict\<close> and \<^verbatim>\<open>realness_percent\<close>): an object's own property, and
  \<^verbatim>\<open>undefined\<close> on every other value.
\<close>

fun member :: "string \<Rightarrow> json \<Rightarrow> json option" where
  "member name (JObj ps) = map_of ps name"
| "member name v = None"

subsection \<open>Decimal digits\<close>

definition digit_char :: "nat \<Rightarrow> char" where
  "digit_char d = ''0123456789'' ! d"

fun dec_nat :: "nat \<Rightarrow> string" where
  "dec_nat n = (if n < 10 then [digit_char n] else dec_nat (n div 10) @ [digit_char (n mod 10)])"

declare dec_nat.simps [simp del]


subsection \<open>Conversion to a string\<close>




subsection \<open>Exceptions\<close>

text \<open>
  A thrown \<^verbatim>\<open>Error\<close> object: its \<^verbatim>\<open>name\<close> and its \<^verbatim>\<open>message\<close>. A computation that
  may throw returns \<open>exn + 'a\<close>, with \<open>Inl\<close> for the exception.
\<close>

datatype exn = Exn string string

fun exn_message :: "exn \<Rightarrow> string" where
  "exn_message (Exn name msg) = msg"

text \<open>\<^verbatim>\<open>String(err)\<close> of an \<^verbatim>\<open>Error\<close> object (\<^verbatim>\<open>Error.prototype.toString\<close>).\<close>

fun exn_String :: "exn \<Rightarrow> string" where
  "exn_String (Exn name msg) =
     (if name = [] then msg else if msg = [] then name else name @ '': '' @ msg)"

section \<open>The proxy endpoints\<close>

subsection \<open>Form data, requests and responses\<close>

record upload_file =
  file_name :: string
  file_type :: string
  file_data :: string

text \<open>An entry of a \<^verbatim>\<open>FormData\<close>: a string or a file.\<close>

datatype entry = EText string | EFile upload_file

type_synonym formdata = "(string \<times> entry) list"

text \<open>\<^verbatim>\<open>FormData.get\<close>: the first entry of that name, \<^verbatim>\<open>null\<close> (\<open>None\<close>) when there is none.\<close>

definition fd_get :: "formdata \<Rightarrow> string \<Rightarrow> entry option" where
  "fd_get fd name = map_of fd name"

text \<open>\<^verbatim>\<open>!x\<close> on what \<^verbatim>\<open>FormData.get\<close> returned: true on \<^verbatim>\<open>null\<close> and on the empty string.\<close>

fun falsy_entry :: "entry option \<Rightarrow> bool" where
  "falsy_entry None = True"
| "falsy_entry (Some (EText s)) = (s = [])"
| "falsy_entry (Some (EFile f)) = False"

fun entry_String :: "entry \<Rightarrow> string" where
  "entry_String (EText s) = s"
| "entry_String (EFile f) = ''[object File]''"

text \<open>One call of \<^verbatim>\<open>fetch\<close>: the address, the method and the body.\<close>

record fetch_call =
  call_url :: string
  call_method :: string
  call_body :: "formdata option"

text \<open>
  What the backend answered: the status, and what \<^verbatim>\<open>res.text()\<close> and \<^verbatim>\<open>res.json()\<close>
  give (each may throw: a broken stream, a body that is not JSON).
\<close>

record backend_response =
  res_status :: nat
  res_text :: "exn + string"
  res_json :: "exn + json"

definition res_ok :: "backend_response \<Rightarrow> bool" where
  "res_ok res = (200 \<le> res_status res \<and> res_status res \<le> 299)"

text \<open>The backend, as the endpoint meets it: \<^verbatim>\<open>fetch\<close> throws or gives a response.\<close>

type_synonym backend = "fetch_call \<Rightarrow> exn + backend_response"

record response =
  status :: nat
  body :: json

text \<open>
  \<^verbatim>\<open>NextResponse.json(data, { status })\<close> builds a \<^verbatim>\<open>Response\<close> with a body. The
  constructor throws a \<^verbatim>\<open>RangeError\<close> for a status outside 200 to 599 and a
  \<^verbatim>\<open>TypeError\<close> for a status that allows no body (204, 205, 304); the messages are
  the engine's.
\<close>

definition NextResponse_json :: "json \<Rightarrow> nat \<Rightarrow> exn + response" where
  "NextResponse_json data st =
     (if st < 200 \<or> 599 < st then
        Inl (Exn ''RangeError'' ''The status provided is outside the range [200, 599].'')
      else if st = 204 \<or> st = 205 \<or> st = 304 then
        Inl (Exn ''TypeError'' ''Response constructor: Invalid response status code'')
      else Inr \<lparr>status = st, body = data\<rparr>)"

text \<open>JavaScript's \<^verbatim>\<open>a || b\<close> on strings.\<close>

definition or_else :: "string \<Rightarrow> string \<Rightarrow> string" where
  "or_else a b = (if a \<noteq> [] then a else b)"

text \<open>
  The \<^verbatim>\<open>catch\<close> block of both \<^verbatim>\<open>POST\<close> handlers: status 502 with the message of
  what was thrown.
\<close>

definition POST_catch :: "exn \<Rightarrow> exn + response" where
  "POST_catch err = NextResponse_json (JObj [(''error'', JStr (exn_message err))]) 502"

text \<open>
  What both handlers do once \<^verbatim>\<open>fetch\<close> has returned: a response that is not ok is
  read as text and passed on with its status, an ok one is read as JSON.
\<close>

definition relay :: "backend_response \<Rightarrow> exn + response" where
  "relay res =
     (if \<not> res_ok res then
        (case res_text res of
           Inl err \<Rightarrow> Inl err
         | Inr errorText \<Rightarrow>
             NextResponse_json
               (JObj [(''error'', JStr (or_else errorText (''Status '' @ dec_nat (res_status res))))])
               (res_status res))
      else
        (case res_json res of
           Inl err \<Rightarrow> Inl err
         | Inr data \<Rightarrow> NextResponse_json data 200))"

subsection \<open>The category endpoint (box)\<close>

text \<open>
  The \<^verbatim>\<open>try\<close> block of \<^verbatim>\<open>POST\<close> in \<^verbatim>\<open>app/api/analyze/box/route.ts\<close>. The request is
  what \<^verbatim>\<open>req.formData()\<close> gives (it throws on a body that is no form). The result is
  what the block returns or throws, with the calls of \<^verbatim>\<open>fetch\<close> it made. A \<^verbatim>\<open>file\<close>
  entry that is a string has no \<^verbatim>\<open>arrayBuffer\<close> method: the call throws.
\<close>

definition POST_box_try :: "exn + formdata \<Rightarrow> backend \<Rightarrow> (exn + response) \<times> fetch_call list" where
  "POST_box_try req fetch =
     (case req of
        Inl err \<Rightarrow> (Inl err, [])
      | Inr incoming \<Rightarrow>
          let shoe_id = fd_get incoming ''shoe_id'';
              file = fd_get incoming ''file''
          in if falsy_entry shoe_id \<or> falsy_entry file then
               (NextResponse_json (JObj [(''error'', JStr ''shoe_id and file are required'')]) 400, [])
             else
               (case file of
                  Some (EFile f) \<Rightarrow>
                    let buffer = file_data f;
                        forward =
                          [(''shoe_id'', EText (entry_String (the shoe_id))),
                           (''file'', EFile \<lparr>file_name = file_name f, file_type = file_type f,
                                              file_data = buffer\<rparr>)];
                        call = \<lparr>call_url = ''http://127.0.0.1:8000/analyze/box_advanced'',
                                call_method = ''POST'', call_body = Some forward\<rparr>
                    in (case fetch call of
                          Inl err \<Rightarrow> (Inl err, [call])
                        | Inr res \<Rightarrow> (relay res, [call]))
                | _ \<Rightarrow> (Inl (Exn ''TypeError'' ''file.arrayBuffer is not a function''), [])))"

definition POST_box :: "exn + formdata \<Rightarrow> backend \<Rightarrow> (exn + response) \<times> fetch_call list" where
  "POST_box req fetch =
     (case POST_box_try req fetch of
        (Inl err, calls) \<Rightarrow> (POST_catch err, calls)
      | (Inr r, calls) \<Rightarrow> (Inr r, calls))"

subsection \<open>The aggregation endpoint (combined)\<close>

text \<open>\<^verbatim>\<open>x === null\<close> on what \<^verbatim>\<open>FormData.get\<close> returned.\<close>

definition is_null :: "entry option \<Rightarrow> bool" where
  "is_null x = (x = None)"

definition POST_combined_try :: "exn + formdata \<Rightarrow> backend \<Rightarrow> (exn + response) \<times> fetch_call list" where
  "POST_combined_try req fetch =
     (case req of
        Inl err \<Rightarrow> (Inl err, [])
      | Inr incoming \<Rightarrow>
          let shoe_id = fd_get incoming ''shoe_id'';
              sneaker_percent = fd_get incoming ''sneaker_percent'';
              box_percent = fd_get incoming ''box_percent'';
              video_percent = fd_get incoming ''video_percent''
          in if falsy_entry shoe_id \<or> is_null sneaker_percent \<or> is_null box_percent
                \<or> is_null video_percent then
               (NextResponse_json
                  (JObj [(''error'',
                          JStr ''shoe_id, sneaker_percent, box_percent, and video_percent are required'')])
                  400, [])
             else
               let forward =
                     [(''shoe_id'', EText (entry_String (the shoe_id))),
                      (''sneaker_percent'', EText (entry_String (the sneaker_percent))),
                      (''box_percent'', EText (entry_String (the box_percent))),
                      (''video_percent'', EText (entry_String (the video_percent)))];
                   call = \<lparr>call_url = ''http://127.0.0.1:8000/analyze/combined'',
                           call_method = ''POST'', call_body = Some forward\<rparr>
               in (case fetch call of
                     Inl err \<Rightarrow> (Inl err, [call])
                   | Inr res \<Rightarrow> (relay res, [call])))"

definition POST_combined :: "exn + formdata \<Rightarrow> backend \<Rightarrow> (exn + response) \<times> fetch_call list" where
  "POST_combined req fetch =
     (case POST_combined_try req fetch of
        (Inl err, calls) \<Rightarrow> (POST_catch err, calls)
      | (Inr r, calls) \<Rightarrow> (Inr r, calls))"

subsection \<open>The health endpoint\<close>

definition health_call :: fetch_call where
  "health_call = \<lparr>call_url = ''http://127.0.0.1:8000/health'', call_method = ''GET'', call_body = None\<rparr>"

definition GET_try :: "backend \<Rightarrow> exn + response" where
  "GET_try fetch =
     (case fetch health_call of
        Inl err \<Rightarrow> Inl err
      | Inr res \<Rightarrow>
          (case res_json res of
             Inl err \<Rightarrow> Inl err
           | Inr data \<Rightarrow> NextResponse_json data (res_status res)))"

definition GET :: "backend \<Rightarrow> exn + response" where
  "GET fetch =
     (case GET_try fetch of
        Inl err \<Rightarrow>
          NextResponse_json (JObj [(''status'', JStr ''error''), (''error'', JStr (exn_String err))]) 502
      | Inr r \<Rightarrow> Inr r)"

section \<open>The upload form\<close>

subsection \<open>State\<close>

datatype UploadKey = Sneaker | Box | Video


text \<open>An object with a property for each category, and the results with \<^verbatim>\<open>combined\<close> too.\<close>

record 'a slots =
  sneaker :: 'a
  box :: 'a
  video :: 'a

record 'a results = "'a slots" +
  combined :: 'a

fun get_slot :: "UploadKey \<Rightarrow> ('a, 'b) slots_scheme \<Rightarrow> 'a" where
  "get_slot Sneaker r = sneaker r"
| "get_slot Box r = box r"
| "get_slot Video r = video r"

fun set_slot :: "UploadKey \<Rightarrow> 'a \<Rightarrow> ('a, 'b) slots_scheme \<Rightarrow> ('a, 'b) slots_scheme" where
  "set_slot Sneaker v r = r\<lparr>sneaker := v\<rparr>"
| "set_slot Box v r = r\<lparr>box := v\<rparr>"
| "set_slot Video v r = r\<lparr>video := v\<rparr>"

definition no_results :: "json option results" where
  "no_results = \<lparr>sneaker = None, box = None, video = None, combined = None\<rparr>"

text \<open>
  The state of \<^verbatim>\<open>VeriKicksUpload\<close>: \<open>None\<close> is \<^verbatim>\<open>null\<close> in \<open>uploads\<close> and
  \<^verbatim>\<open>undefined\<close> in \<open>results\<close>.
\<close>

record upload_state =
  modelDropdown :: string
  uploads :: "upload_file option slots"
  submitting :: bool
  results :: "json option results"
  error :: string


definition handleSelect :: "UploadKey \<Rightarrow> upload_file \<Rightarrow> upload_state \<Rightarrow> upload_state" where
  "handleSelect key f st = st\<lparr>uploads := set_slot key (Some f) (uploads st)\<rparr>"

definition handleRemove :: "UploadKey \<Rightarrow> upload_state \<Rightarrow> upload_state" where
  "handleRemove key st =
     st\<lparr>uploads := set_slot key None (uploads st),
        results := set_slot key None (results st),
        error := []\<rparr>"

subsection \<open>Serialising a result\<close>









subsection \<open>Submission\<close>






text \<open>
  \<^verbatim>\<open>Promise.all\<close>: the values in the order of the promises, or a rejection when one of
  them rejects.
\<close>

fun promise_all :: "('k \<times> (exn + 'a)) list \<Rightarrow> exn + ('k \<times> 'a) list" where
  "promise_all [] = Inr []"
| "promise_all ((k, Inl err) # rest) = Inl err"
| "promise_all ((k, Inr v) # rest) =
     (case promise_all rest of Inl err \<Rightarrow> Inl err | Inr vs \<Rightarrow> Inr ((k, v) # vs))"




text \<open>
  A \<^verbatim>\<open>URLSearchParams\<close> is the list of its pairs: \<^verbatim>\<open>append\<close> adds a pair at the end
  and \<^verbatim>\<open>get\<close> reads the first value of a name.
\<close>

type_synonym search_params = "(string \<times> string) list"

definition sp_get :: "search_params \<Rightarrow> string \<Rightarrow> string option" where
  "sp_get params name = map_of params name"











section \<open>The results page\<close>

subsection \<open>Decoding a parameter\<close>

text \<open>
  What decoding can throw. \<open>Unmodelled\<close> marks a text whose value is outside the
  model (a number with a fraction or an exponent, a \<^verbatim>\<open>\u\<close> escape beyond ASCII): the
  model does not say what \<^verbatim>\<open>JSON.parse\<close> returns there.
\<close>

datatype fault = URIError | SyntaxError | Unmodelled

definition hex_val :: "char \<Rightarrow> nat option" where
  "hex_val c =
     (let n = (of_char c :: nat) in
        if 48 \<le> n \<and> n \<le> 57 then Some (n - 48)
        else if 65 \<le> n \<and> n \<le> 70 then Some (n - 55)
        else if 97 \<le> n \<and> n \<le> 102 then Some (n - 87)
        else None)"

text \<open>Replacing every \<^verbatim>\<open>%XX\<close> by its byte; \<open>None\<close> when a \<^verbatim>\<open>%\<close> is not followed by two
  hexadecimal digits.\<close>

fun unescape :: "string \<Rightarrow> string option" where
  "unescape [] = Some []"
| "unescape (c # s) =
     (if c = CHR ''%'' then
        (case s of
           h1 # h2 # rest \<Rightarrow>
             (case (hex_val h1, hex_val h2) of
                (Some a, Some b) \<Rightarrow> map_option ((#) (char_of (16 * a + b))) (unescape rest)
              | _ \<Rightarrow> None)
         | _ \<Rightarrow> None)
      else map_option ((#) c) (unescape s))"

text \<open>Well-formed UTF-8, byte by byte (the table of the Unicode standard).\<close>

definition cont :: "nat \<Rightarrow> bool" where
  "cont c = (128 \<le> c \<and> c \<le> 191)"

definition second3 :: "nat \<Rightarrow> nat \<Rightarrow> bool" where
  "second3 b c =
     (if b = 224 then 160 \<le> c \<and> c \<le> 191 else if b = 237 then 128 \<le> c \<and> c \<le> 159 else cont c)"

definition second4 :: "nat \<Rightarrow> nat \<Rightarrow> bool" where
  "second4 b c =
     (if b = 240 then 144 \<le> c \<and> c \<le> 191 else if b = 244 then 128 \<le> c \<and> c \<le> 143 else cont c)"

fun utf8_ok :: "nat list \<Rightarrow> bool" where
  "utf8_ok [] = True"
| "utf8_ok (b # bs) =
     (if b < 128 then utf8_ok bs
      else if 194 \<le> b \<and> b \<le> 223 then
        (case bs of c1 # r \<Rightarrow> cont c1 \<and> utf8_ok r | _ \<Rightarrow> False)
      else if 224 \<le> b \<and> b \<le> 239 then
        (case bs of c1 # c2 # r \<Rightarrow> second3 b c1 \<and> cont c2 \<and> utf8_ok r | _ \<Rightarrow> False)
      else if 240 \<le> b \<and> b \<le> 244 then
        (case bs of c1 # c2 # c3 # r \<Rightarrow> second4 b c1 \<and> cont c2 \<and> cont c3 \<and> utf8_ok r | _ \<Rightarrow> False)
      else False)"

definition utf8_valid :: "string \<Rightarrow> bool" where
  "utf8_valid s = utf8_ok (map of_char s)"

text \<open>
  \<^verbatim>\<open>decodeURIComponent\<close>: a \<^verbatim>\<open>URIError\<close> on a malformed escape and on escapes that
  are not the UTF-8 form of a character.
\<close>

definition decodeURIComponent :: "string \<Rightarrow> fault + string" where
  "decodeURIComponent s =
     (case unescape s of
        None \<Rightarrow> Inl URIError
      | Some t \<Rightarrow> if utf8_valid t then Inr t else Inl URIError)"

subsection \<open>Reading the address\<close>











subsection \<open>Reading JSON\<close>

datatype token =
    TLBrace | TRBrace | TLBrack | TRBrack | TColon | TComma
  | TStr string | TNum int | TTrue | TFalse | TNull
  | TBad fault

definition is_ws :: "char \<Rightarrow> bool" where
  "is_ws c = (c = CHR 0x20 \<or> c = CHR 0x09 \<or> c = CHR 0x0A \<or> c = CHR 0x0D)"

definition is_digit :: "char \<Rightarrow> bool" where
  "is_digit c = (48 \<le> (of_char c :: nat) \<and> (of_char c :: nat) \<le> 57)"

definition digit_val :: "char \<Rightarrow> nat" where
  "digit_val c = (of_char c :: nat) - 48"

definition signed :: "bool \<Rightarrow> nat \<Rightarrow> int" where
  "signed neg n = (if neg then - int n else int n)"

text \<open>The character after a backslash, for the escapes of one character.\<close>

definition simple_escape :: "char \<Rightarrow> char option" where
  "simple_escape e =
     (if e = CHR 0x22 then Some (CHR 0x22)
      else if e = CHR 0x5C then Some (CHR 0x5C)
      else if e = CHR ''/'' then Some (CHR ''/'')
      else if e = CHR ''b'' then Some (CHR 0x08)
      else if e = CHR ''f'' then Some (CHR 0x0C)
      else if e = CHR ''n'' then Some (CHR 0x0A)
      else if e = CHR ''r'' then Some (CHR 0x0D)
      else if e = CHR ''t'' then Some (CHR 0x09)
      else None)"

definition hex4 :: "char \<Rightarrow> char \<Rightarrow> char \<Rightarrow> char \<Rightarrow> nat option" where
  "hex4 h1 h2 h3 h4 =
     (case (hex_val h1, hex_val h2, hex_val h3, hex_val h4) of
        (Some a, Some b, Some c, Some d) \<Rightarrow> Some (4096 * a + 256 * b + 16 * c + d)
      | _ \<Rightarrow> None)"

text \<open>
  The end of a number, at the character \<open>c\<close> that follows its digits, with the tokens
  of the text after \<open>c\<close>. A fraction or an exponent leaves the model; white space, a
  comma and a closing bracket are the only characters JSON allows there.
\<close>

definition number_then :: "int \<Rightarrow> char \<Rightarrow> token list \<Rightarrow> token list" where
  "number_then v c after =
     (if c = CHR ''.'' \<or> c = CHR ''e'' \<or> c = CHR ''E'' then [TBad Unmodelled]
      else if is_ws c then TNum v # after
      else if c = CHR '','' then TNum v # TComma # after
      else if c = CHR '']'' then TNum v # TRBrack # after
      else if c = CHR ''}'' then TNum v # TRBrace # after
      else [TNum v, TBad SyntaxError])"

text \<open>
  The tokens of a JSON text. A text that is not JSON ends in \<open>TBad SyntaxError\<close> where
  it goes wrong.
\<close>

fun lex :: "string \<Rightarrow> token list"
  and lex_string :: "string \<Rightarrow> string \<Rightarrow> token list"
  and lex_digits :: "bool \<Rightarrow> nat \<Rightarrow> string \<Rightarrow> token list"
  and lex_zero :: "string \<Rightarrow> token list" where
  "lex [] = []"
| "lex (c # s) =
     (if is_ws c then lex s
      else if c = CHR ''{'' then TLBrace # lex s
      else if c = CHR ''}'' then TRBrace # lex s
      else if c = CHR ''['' then TLBrack # lex s
      else if c = CHR '']'' then TRBrack # lex s
      else if c = CHR '':'' then TColon # lex s
      else if c = CHR '','' then TComma # lex s
      else if c = CHR 0x22 then lex_string [] s
      else if c = CHR ''0'' then lex_zero s
      else if is_digit c then lex_digits False (digit_val c) s
      else if c = CHR ''-'' then
        (case s of
           [] \<Rightarrow> [TBad SyntaxError]
         | d # s' \<Rightarrow>
             if d = CHR ''0'' then lex_zero s'
             else if is_digit d then lex_digits True (digit_val d) s'
             else [TBad SyntaxError])
      else if c = CHR ''t'' then
        (case s of
           r # u # e # s' \<Rightarrow> if [r, u, e] = ''rue'' then TTrue # lex s' else [TBad SyntaxError]
         | _ \<Rightarrow> [TBad SyntaxError])
      else if c = CHR ''f'' then
        (case s of
           a # l # s1 # e # s' \<Rightarrow>
             if [a, l, s1, e] = ''alse'' then TFalse # lex s' else [TBad SyntaxError]
         | _ \<Rightarrow> [TBad SyntaxError])
      else if c = CHR ''n'' then
        (case s of
           u # l1 # l2 # s' \<Rightarrow> if [u, l1, l2] = ''ull'' then TNull # lex s' else [TBad SyntaxError]
         | _ \<Rightarrow> [TBad SyntaxError])
      else [TBad SyntaxError])"
| "lex_string acc [] = [TBad SyntaxError]"
| "lex_string acc (c # s) =
     (if c = CHR 0x22 then TStr (rev acc) # lex s
      else if c = CHR 0x5C then
        (case s of
           [] \<Rightarrow> [TBad SyntaxError]
         | e # s' \<Rightarrow>
             if e = CHR ''u'' then
               (case s' of
                  h1 # h2 # h3 # h4 # s'' \<Rightarrow>
                    (case hex4 h1 h2 h3 h4 of
                       None \<Rightarrow> [TBad SyntaxError]
                     | Some n \<Rightarrow>
                         if n < 128 then lex_string (char_of n # acc) s'' else [TBad Unmodelled])
                | _ \<Rightarrow> [TBad SyntaxError])
             else
               (case simple_escape e of
                  None \<Rightarrow> [TBad SyntaxError]
                | Some x \<Rightarrow> lex_string (x # acc) s'))
      else if (of_char c :: nat) < 32 then [TBad SyntaxError]
      else lex_string (c # acc) s)"
| "lex_digits neg n [] = [TNum (signed neg n)]"
| "lex_digits neg n (c # s) =
     (if is_digit c then lex_digits neg (10 * n + digit_val c) s
      else number_then (signed neg n) c (lex s))"
| "lex_zero [] = [TNum 0]"
| "lex_zero (c # s) = number_then 0 c (lex s)"

text \<open>
  The parser reads the tokens once, with a stack of the arrays and objects that are
  still open: an array with its elements so far, an object with its properties so far
  and the key whose value is being read.
\<close>

datatype frame = InArr "json list" | InObj "(string \<times> json) list" string

text \<open>Defining a property: a key that is already there keeps its place and takes the
  new value.\<close>

fun obj_put :: "string \<Rightarrow> json \<Rightarrow> (string \<times> json) list \<Rightarrow> (string \<times> json) list" where
  "obj_put k v [] = [(k, v)]"
| "obj_put k v ((k', v') # ps) = (if k' = k then (k, v) # ps else (k', v') # obj_put k v ps)"

fun parse_value :: "frame list \<Rightarrow> token list \<Rightarrow> fault + json"
  and parse_after :: "json \<Rightarrow> frame list \<Rightarrow> token list \<Rightarrow> fault + json" where
  "parse_value st [] = Inl SyntaxError"
| "parse_value st (t # ts) =
     (case t of
        TBad f \<Rightarrow> Inl f
      | TStr s \<Rightarrow> parse_after (JStr s) st ts
      | TNum n \<Rightarrow> parse_after (JNum n) st ts
      | TTrue \<Rightarrow> parse_after (JBool True) st ts
      | TFalse \<Rightarrow> parse_after (JBool False) st ts
      | TNull \<Rightarrow> parse_after JNull st ts
      | TLBrack \<Rightarrow>
          (case ts of
             TRBrack # ts' \<Rightarrow> parse_after (JArr []) st ts'
           | _ \<Rightarrow> parse_value (InArr [] # st) ts)
      | TLBrace \<Rightarrow>
          (case ts of
             TRBrace # ts' \<Rightarrow> parse_after (JObj []) st ts'
           | TStr k # TColon # ts' \<Rightarrow> parse_value (InObj [] k # st) ts'
           | TBad f # ts' \<Rightarrow> Inl f
           | TStr k # TBad f # ts' \<Rightarrow> Inl f
           | _ \<Rightarrow> Inl SyntaxError)
      | _ \<Rightarrow> Inl SyntaxError)"
| "parse_after v [] [] = Inr v"
| "parse_after v [] (t # ts) = (case t of TBad f \<Rightarrow> Inl f | _ \<Rightarrow> Inl SyntaxError)"
| "parse_after v (fr # st) [] = Inl SyntaxError"
| "parse_after v (InArr xs # st) (t # ts) =
     (case t of
        TBad f \<Rightarrow> Inl f
      | TComma \<Rightarrow> parse_value (InArr (xs @ [v]) # st) ts
      | TRBrack \<Rightarrow> parse_after (JArr (xs @ [v])) st ts
      | _ \<Rightarrow> Inl SyntaxError)"
| "parse_after v (InObj ps k # st) (t # ts) =
     (case t of
        TBad f \<Rightarrow> Inl f
      | TRBrace \<Rightarrow> parse_after (JObj (obj_put k v ps)) st ts
      | TComma \<Rightarrow>
          (case ts of
             TStr k' # TColon # ts' \<Rightarrow> parse_value (InObj (obj_put k v ps) k' # st) ts'
           | TBad f # ts' \<Rightarrow> Inl f
           | TStr k' # TBad f # ts' \<Rightarrow> Inl f
           | _ \<Rightarrow> Inl SyntaxError)
      | _ \<Rightarrow> Inl SyntaxError)"

definition JSON_parse :: "string \<Rightarrow> fault + json" where
  "JSON_parse s = parse_value [] (lex s)"

subsection \<open>Loading the results\<close>

datatype ResultKey = Category UploadKey | Combined

fun set_result :: "ResultKey \<Rightarrow> json option \<Rightarrow> json option results \<Rightarrow> json option results" where
  "set_result (Category key) v r = set_slot key v r"
| "set_result Combined v r = r\<lparr>combined := v\<rparr>"

text \<open>\<^verbatim>\<open>JSON.parse(decodeURIComponent(data))\<close>.\<close>

definition parse_param :: "string \<Rightarrow> fault + json" where
  "parse_param data = (case decodeURIComponent data of Inl f \<Rightarrow> Inl f | Inr t \<Rightarrow> JSON_parse t)"

text \<open>
  The effect of \<^verbatim>\<open>ResultsPage\<close> calls \<^verbatim>\<open>setResults\<close> with an updater function for each
  parameter that is there and not empty. The decoding stands inside the updater:
  \<^verbatim>\<open>prev => ({ ...prev, sneaker: JSON.parse(decodeURIComponent(sneakerData)) })\<close>.
  React queues the updaters and runs them, in order, when it next renders the page; so
  no updater runs inside the \<^verbatim>\<open>try\<close> block of the effect, and an updater that throws
  makes the rendering throw.
\<close>

definition queued :: "ResultKey \<Rightarrow> string option \<Rightarrow> (ResultKey \<times> string) list" where
  "queued key data = (case data of None \<Rightarrow> [] | Some d \<Rightarrow> if d \<noteq> [] then [(key, d)] else [])"


fun run_updates :: "json option results \<Rightarrow> (ResultKey \<times> string) list \<Rightarrow> fault + json option results" where
  "run_updates prev [] = Inr prev"
| "run_updates prev ((key, data) # queue) =
     (case parse_param data of
        Inl f \<Rightarrow> Inl f
      | Inr v \<Rightarrow> run_updates (set_result key (Some v) prev) queue)"


definition shoeModel :: "search_params \<Rightarrow> string" where
  "shoeModel searchParams =
     (case sp_get searchParams ''model'' of None \<Rightarrow> ''Unknown Model''
      | Some m \<Rightarrow> or_else m ''Unknown Model'')"

subsection \<open>The headline\<close>

text \<open>\<^verbatim>\<open>x?.name\<close>: \<^verbatim>\<open>undefined\<close> when \<open>x\<close> is \<^verbatim>\<open>undefined\<close> or \<^verbatim>\<open>null\<close>.\<close>

fun opt_member :: "string \<Rightarrow> json option \<Rightarrow> json option" where
  "opt_member name None = None"
| "opt_member name (Some JNull) = None"
| "opt_member name (Some v) = member name v"

text \<open>\<^verbatim>\<open>x || y\<close>.\<close>

fun js_or :: "json option \<Rightarrow> json \<Rightarrow> json" where
  "js_or None y = y"
| "js_or (Some x) y = (if truthy x then x else y)"

definition overallVerdict :: "json option results \<Rightarrow> json" where
  "overallVerdict r =
     (if opt_member ''verdict'' (combined r) = Some (JStr ''AUTHENTIC'') then JStr ''AUTHENTIC''
      else if opt_member ''verdict'' (combined r) = Some (JStr ''COUNTERFEIT'') then JStr ''COUNTERFEIT''
      else js_or (opt_member ''verdict'' (combined r)) (JStr ''INCONCLUSIVE''))"

definition overallPercent :: "json option results \<Rightarrow> json" where
  "overallPercent r = js_or (opt_member ''realness_percent'' (combined r)) (JNum 0)"

section \<open>Notions the properties are stated with\<close>

















section \<open>Example inputs\<close>

definition example_file :: upload_file where
  "example_file = \<lparr>file_name = ''box.jpg'', file_type = ''image/jpeg'', file_data = ''JFIF''\<rparr>"

definition example_box_form :: formdata where
  "example_box_form = [(''shoe_id'', EText ''yeezy_350_zebra''), (''file'', EFile example_file)]"

definition example_box_call :: fetch_call where
  "example_box_call =
     \<lparr>call_url = ''http://127.0.0.1:8000/analyze/box_advanced'', call_method = ''POST'',
      call_body = Some example_box_form\<rparr>"

definition example_combined_form :: "string \<Rightarrow> string \<Rightarrow> formdata" where
  "example_combined_form shoe_id sneaker_percent =
     [(''shoe_id'', EText shoe_id), (''sneaker_percent'', EText sneaker_percent),
      (''box_percent'', EText ''88''), (''video_percent'', EText ''95'')]"

definition example_combined_call :: "string \<Rightarrow> string \<Rightarrow> fetch_call" where
  "example_combined_call shoe_id sneaker_percent =
     \<lparr>call_url = ''http://127.0.0.1:8000/analyze/combined'', call_method = ''POST'',
      call_body = Some (example_combined_form shoe_id sneaker_percent)\<rparr>"

text \<open>A backend that cannot be reached, and one that gives the same answer to every call.\<close>

definition backend_down :: backend where
  "backend_down call = Inl (Exn ''TypeError'' ''fetch failed'')"

definition backend_answers :: "backend_response \<Rightarrow> backend" where
  "backend_answers res call = Inr res"

definition not_json :: exn where
  "not_json = Exn ''SyntaxError'' ''Unexpected end of JSON input''"

definition answer_404 :: "string \<Rightarrow> backend_response" where
  "answer_404 text = \<lparr>res_status = 404, res_text = Inr text, res_json = Inl not_json\<rparr>"

definition example_state :: upload_state where
  "example_state =
     \<lparr>modelDropdown = ''Yeezy 350 Zebra'',
      uploads = \<lparr>sneaker = Some example_file, box = Some example_file, video = Some example_file\<rparr>,
      submitting = False,
      results = \<lparr>sneaker = None, box = Some (JObj [(''verdict'', JStr ''FAKE'')]), video = None,
                 combined = None\<rparr>,
      error = ''box: label not found''\<rparr>"

definition combined_with :: "json \<Rightarrow> json option results" where
  "combined_with verdict =
     no_results\<lparr>combined := Some (JObj [(''verdict'', verdict), (''realness_percent'', JNum 91)])\<rparr>"







section \<open>The proxy endpoints: properties\<close>

lemma NextResponse_json_ok:
  "200 \<le> st \<Longrightarrow> st \<le> 599 \<Longrightarrow> st \<noteq> 204 \<Longrightarrow> st \<noteq> 205 \<Longrightarrow> st \<noteq> 304
   \<Longrightarrow> NextResponse_json data st = Inr \<lparr>status = st, body = data\<rparr>"
  by (simp add: NextResponse_json_def)

lemma POST_catch_502:
  "POST_catch err = Inr \<lparr>status = 502, body = JObj [(''error'', JStr (exn_message err))]\<rparr>"
  by (simp add: POST_catch_def NextResponse_json_def)

lemma POST_box_fst:
  "fst (POST_box req fetch) =
     (case fst (POST_box_try req fetch) of Inl err \<Rightarrow> POST_catch err | Inr r \<Rightarrow> Inr r)"
  by (simp add: POST_box_def split: prod.splits sum.splits)

lemma POST_box_snd: "snd (POST_box req fetch) = snd (POST_box_try req fetch)"
  by (simp add: POST_box_def split: prod.splits sum.splits)

lemma POST_combined_fst:
  "fst (POST_combined req fetch) =
     (case fst (POST_combined_try req fetch) of Inl err \<Rightarrow> POST_catch err | Inr r \<Rightarrow> Inr r)"
  by (simp add: POST_combined_def split: prod.splits sum.splits)

lemma POST_combined_snd: "snd (POST_combined req fetch) = snd (POST_combined_try req fetch)"
  by (simp add: POST_combined_def split: prod.splits sum.splits)

lemma POST_box_try_called:
  assumes "snd (POST_box_try req fetch) = [call]"
  shows "fst (POST_box_try req fetch) = (case fetch call of Inl err \<Rightarrow> Inl err | Inr res \<Rightarrow> relay res)"
proof (cases req)
  case (Inl err)
  with assms show ?thesis by (simp add: POST_box_try_def)
next
  case (Inr incoming)
  show ?thesis
  proof (cases "falsy_entry (fd_get incoming ''shoe_id'') \<or> falsy_entry (fd_get incoming ''file'')")
    case True
    with assms Inr show ?thesis by (simp add: POST_box_try_def Let_def)
  next
    case False
    then obtain e where e: "fd_get incoming ''file'' = Some e"
      by (cases "fd_get incoming ''file''") auto
    show ?thesis
    proof (cases e)
      case (EText s)
      with assms Inr False e show ?thesis by (simp add: POST_box_try_def Let_def)
    next
      case (EFile f)
      with assms Inr False e show ?thesis
        by (auto simp: POST_box_try_def Let_def split: sum.splits)
    qed
  qed
qed

lemma POST_combined_try_called:
  assumes "snd (POST_combined_try req fetch) = [call]"
  shows "fst (POST_combined_try req fetch) = (case fetch call of Inl err \<Rightarrow> Inl err | Inr res \<Rightarrow> relay res)"
proof (cases req)
  case (Inl err)
  with assms show ?thesis by (simp add: POST_combined_try_def)
next
  case (Inr incoming)
  show ?thesis
  proof (cases "falsy_entry (fd_get incoming ''shoe_id'') \<or> is_null (fd_get incoming ''sneaker_percent'')
      \<or> is_null (fd_get incoming ''box_percent'') \<or> is_null (fd_get incoming ''video_percent'')")
    case True
    with assms Inr show ?thesis by (simp add: POST_combined_try_def Let_def)
  next
    case False
    with assms Inr show ?thesis
      by (auto simp: POST_combined_try_def Let_def split: sum.splits)
  qed
qed

lemma POST_box_called:
  "snd (POST_box req fetch) = [call] \<Longrightarrow> fst (POST_box req fetch) =
     (case fetch call of Inl err \<Rightarrow> POST_catch err
      | Inr res \<Rightarrow> (case relay res of Inl err \<Rightarrow> POST_catch err | Inr r \<Rightarrow> Inr r))"
  by (simp add: POST_box_fst POST_box_snd POST_box_try_called split: sum.splits)

lemma POST_combined_called:
  "snd (POST_combined req fetch) = [call] \<Longrightarrow> fst (POST_combined req fetch) =
     (case fetch call of Inl err \<Rightarrow> POST_catch err
      | Inr res \<Rightarrow> (case relay res of Inl err \<Rightarrow> POST_catch err | Inr r \<Rightarrow> Inr r))"
  by (simp add: POST_combined_fst POST_combined_snd POST_combined_try_called split: sum.splits)

lemma relay_not_ok:
  assumes "\<not> res_ok res" "res_text res = Inr errorText"
    "200 \<le> res_status res" "res_status res \<le> 599" "res_status res \<noteq> 304"
  shows "relay res = Inr \<lparr>status = res_status res,
     body = JObj [(''error'', JStr (if errorText \<noteq> [] then errorText else ''Status '' @ dec_nat (res_status res)))]\<rparr>"
  using assms by (auto simp: relay_def res_ok_def or_else_def NextResponse_json_def)

lemma example_box_calls: "snd (POST_box (Inr example_box_form) fetch) = [example_box_call]"
  by (simp add: POST_box_snd POST_box_try_def example_box_form_def example_box_call_def
      example_file_def fd_get_def Let_def split: sum.splits)

lemma example_combined_calls:
  "shoe_id \<noteq> [] \<Longrightarrow> snd (POST_combined (Inr (example_combined_form shoe_id p)) fetch) = [example_combined_call shoe_id p]"
  by (simp add: POST_combined_snd POST_combined_try_def example_combined_form_def example_combined_call_def
      fd_get_def is_null_def Let_def split: sum.splits)

lemma dec_nat_404: "dec_nat 404 = ''404''"
  by (simp add: dec_nat.simps digit_char_def)

text \<open>
  Claim C2. A request to a proxy endpoint that lacks a required field (\<^verbatim>\<open>shoe_id\<close> or
  \<^verbatim>\<open>file\<close> for the category endpoint; \<^verbatim>\<open>shoe_id\<close>, \<^verbatim>\<open>sneaker_percent\<close>,
  \<^verbatim>\<open>box_percent\<close> or \<^verbatim>\<open>video_percent\<close> for the aggregation endpoint) is answered with
  status 400 and an error body, and the backend is not called: the list of calls is
  empty, whatever the backend would have done.
\<close>

theorem proxy_missing_field_400:
  "(fd_get incoming ''shoe_id'' = None \<or> fd_get incoming ''file'' = None \<longrightarrow>
      POST_box (Inr incoming) fetch =
        (Inr \<lparr>status = 400, body = JObj [(''error'', JStr ''shoe_id and file are required'')]\<rparr>, []))
   \<and> (fd_get incoming ''shoe_id'' = None \<or> fd_get incoming ''sneaker_percent'' = None
        \<or> fd_get incoming ''box_percent'' = None \<or> fd_get incoming ''video_percent'' = None \<longrightarrow>
      POST_combined (Inr incoming) fetch =
        (Inr \<lparr>status = 400,
              body = JObj [(''error'',
                JStr ''shoe_id, sneaker_percent, box_percent, and video_percent are required'')]\<rparr>, []))"
  by (auto simp: POST_box_def POST_box_try_def POST_combined_def POST_combined_try_def
      NextResponse_json_def is_null_def Let_def)

theorem proxy_missing_field_400_witness:
  "fd_get [(''shoe_id'', EText ''yeezy_350_zebra'')] ''file'' = None
   \<and> POST_box (Inr [(''shoe_id'', EText ''yeezy_350_zebra'')]) backend_down =
        (Inr \<lparr>status = 400, body = JObj [(''error'', JStr ''shoe_id and file are required'')]\<rparr>, [])
   \<and> fd_get [(''shoe_id'', EText ''yeezy_350_zebra'')] ''box_percent'' = None
   \<and> POST_combined (Inr [(''shoe_id'', EText ''yeezy_350_zebra'')]) backend_down =
        (Inr \<lparr>status = 400,
              body = JObj [(''error'',
                JStr ''shoe_id, sneaker_percent, box_percent, and video_percent are required'')]\<rparr>, [])"
  using proxy_missing_field_400 [of "[(''shoe_id'', EText ''yeezy_350_zebra'')]" backend_down]
  by (simp add: fd_get_def)

text \<open>
  Claim C5, as stated: when the backend answers with a status that is not a success, the
  endpoint returns that status with the text of the backend's body in the error field.
  It fails for an empty body: the handler writes \<^verbatim>\<open>errorText || `Status ${res.status}`\<close>,
  so a 404 with an empty body gives the error \<^verbatim>\<open>Status 404\<close>, not the empty text.
\<close>

theorem proxy_backend_error_relayed_counterexample:
  "res_text (answer_404 []) = Inr []
   \<and> \<not> res_ok (answer_404 [])
   \<and> fst (POST_box (Inr example_box_form) (backend_answers (answer_404 []))) \<noteq>
       Inr \<lparr>status = 404, body = JObj [(''error'', JStr [])]\<rparr>"
  by (simp add: POST_box_called [OF example_box_calls] backend_answers_def answer_404_def res_ok_def
      relay_def or_else_def NextResponse_json_def)

text \<open>
  Claim C5, amended. When the backend answers with a status that is not a success and
  that a response with a body may carry (200 to 599, not 304), and its body can be read
  as text, the endpoint returns that status and an error field holding the text, or
  \<^verbatim>\<open>Status\<close> followed by the status when the text is empty.
\<close>

theorem proxy_backend_error_relayed:
  assumes "fetch call = Inr res" "\<not> res_ok res" "res_text res = Inr errorText"
    "200 \<le> res_status res" "res_status res \<le> 599" "res_status res \<noteq> 304"
  shows "(snd (POST_box req fetch) = [call] \<longrightarrow>
            fst (POST_box req fetch) = Inr \<lparr>status = res_status res,
              body = JObj [(''error'', JStr (if errorText \<noteq> [] then errorText
                                             else ''Status '' @ dec_nat (res_status res)))]\<rparr>)
       \<and> (snd (POST_combined req fetch) = [call] \<longrightarrow>
            fst (POST_combined req fetch) = Inr \<lparr>status = res_status res,
              body = JObj [(''error'', JStr (if errorText \<noteq> [] then errorText
                                             else ''Status '' @ dec_nat (res_status res)))]\<rparr>)"
  using assms by (simp add: POST_box_called POST_combined_called relay_not_ok)

theorem proxy_backend_error_relayed_witness:
  "fst (POST_box (Inr example_box_form) (backend_answers (answer_404 ''not found''))) =
       Inr \<lparr>status = 404, body = JObj [(''error'', JStr ''not found'')]\<rparr>
   \<and> fst (POST_combined (Inr (example_combined_form ''yeezy_350_zebra'' ''92''))
            (backend_answers (answer_404 ''not found''))) =
       Inr \<lparr>status = 404, body = JObj [(''error'', JStr ''not found'')]\<rparr>
   \<and> fst (POST_box (Inr example_box_form) (backend_answers (answer_404 []))) =
       Inr \<lparr>status = 404, body = JObj [(''error'', JStr ''Status 404'')]\<rparr>"
  using proxy_backend_error_relayed [where fetch = "backend_answers (answer_404 ''not found'')"
      and call = example_box_call and res = "answer_404 ''not found''" and errorText = "''not found''"
      and req = "Inr example_box_form"]
    proxy_backend_error_relayed [where fetch = "backend_answers (answer_404 ''not found'')"
      and call = "example_combined_call ''yeezy_350_zebra'' ''92''"
      and res = "answer_404 ''not found''" and errorText = "''not found''"
      and req = "Inr (example_combined_form ''yeezy_350_zebra'' ''92'')"]
    proxy_backend_error_relayed [where fetch = "backend_answers (answer_404 [])"
      and call = example_box_call and res = "answer_404 []" and errorText = "[]"
      and req = "Inr example_box_form"]
  by (simp add: example_box_calls example_combined_calls backend_answers_def answer_404_def res_ok_def dec_nat_404)

text \<open>
  Claim C6. When the call to the backend throws, the endpoint returns status 502 and
  the message of what was thrown in the error field.
\<close>

theorem proxy_fetch_throws_502:
  "(snd (POST_box req fetch) = [call] \<and> fetch call = Inl err \<longrightarrow>
      fst (POST_box req fetch) = Inr \<lparr>status = 502, body = JObj [(''error'', JStr (exn_message err))]\<rparr>)
   \<and> (snd (POST_combined req fetch) = [call] \<and> fetch call = Inl err \<longrightarrow>
      fst (POST_combined req fetch) = Inr \<lparr>status = 502, body = JObj [(''error'', JStr (exn_message err))]\<rparr>)"
  by (simp add: POST_box_called POST_combined_called POST_catch_502)

theorem proxy_fetch_throws_502_witness:
  "snd (POST_box (Inr example_box_form) backend_down) = [example_box_call]
   \<and> backend_down example_box_call = Inl (Exn ''TypeError'' ''fetch failed'')
   \<and> fst (POST_box (Inr example_box_form) backend_down) =
       Inr \<lparr>status = 502, body = JObj [(''error'', JStr ''fetch failed'')]\<rparr>
   \<and> snd (POST_combined (Inr (example_combined_form ''yeezy_350_zebra'' ''92'')) backend_down) =
       [example_combined_call ''yeezy_350_zebra'' ''92'']
   \<and> fst (POST_combined (Inr (example_combined_form ''yeezy_350_zebra'' ''92'')) backend_down) =
       Inr \<lparr>status = 502, body = JObj [(''error'', JStr ''fetch failed'')]\<rparr>"
  using proxy_fetch_throws_502 [where req = "Inr example_box_form" and fetch = backend_down
      and call = example_box_call and err = "Exn ''TypeError'' ''fetch failed''"]
    proxy_fetch_throws_502 [where req = "Inr (example_combined_form ''yeezy_350_zebra'' ''92'')"
      and fetch = backend_down and call = "example_combined_call ''yeezy_350_zebra'' ''92''"
      and err = "Exn ''TypeError'' ''fetch failed''"]
  by (simp add: example_box_calls example_combined_calls backend_down_def)

text \<open>
  Claim C9. The aggregation endpoint tests its fields differently. A percentage is
  refused only when it is absent: with a \<^verbatim>\<open>shoe_id\<close> that is not empty and the three
  percentages present, whatever they hold (the empty string too), the request is
  forwarded to the backend with each value as a string. A \<^verbatim>\<open>shoe_id\<close> that is the empty
  string is refused with status 400 and no call, though the field is present.
\<close>

theorem combined_validation_asymmetric:
  "(\<not> falsy_entry (fd_get incoming ''shoe_id'')
      \<and> fd_get incoming ''sneaker_percent'' = Some sneaker_percent
      \<and> fd_get incoming ''box_percent'' = Some box_percent
      \<and> fd_get incoming ''video_percent'' = Some video_percent \<longrightarrow>
      snd (POST_combined (Inr incoming) fetch) =
        [\<lparr>call_url = ''http://127.0.0.1:8000/analyze/combined'', call_method = ''POST'',
          call_body = Some
            [(''shoe_id'', EText (entry_String (the (fd_get incoming ''shoe_id'')))),
             (''sneaker_percent'', EText (entry_String sneaker_percent)),
             (''box_percent'', EText (entry_String box_percent)),
             (''video_percent'', EText (entry_String video_percent))]\<rparr>])
   \<and> (fd_get incoming ''shoe_id'' = Some (EText []) \<longrightarrow>
      POST_combined (Inr incoming) fetch =
        (Inr \<lparr>status = 400,
              body = JObj [(''error'',
                JStr ''shoe_id, sneaker_percent, box_percent, and video_percent are required'')]\<rparr>, []))"
  by (auto simp: POST_combined_def POST_combined_try_def NextResponse_json_def is_null_def Let_def
      split: sum.splits)

theorem combined_validation_asymmetric_witness:
  "snd (POST_combined (Inr (example_combined_form ''yeezy_350_zebra'' [])) backend_down) =
     [\<lparr>call_url = ''http://127.0.0.1:8000/analyze/combined'', call_method = ''POST'',
       call_body = Some
         [(''shoe_id'', EText ''yeezy_350_zebra''), (''sneaker_percent'', EText []),
          (''box_percent'', EText ''88''), (''video_percent'', EText ''95'')]\<rparr>]
   \<and> POST_combined (Inr (example_combined_form [] ''92'')) backend_down =
        (Inr \<lparr>status = 400,
              body = JObj [(''error'',
                JStr ''shoe_id, sneaker_percent, box_percent, and video_percent are required'')]\<rparr>, [])"
  using combined_validation_asymmetric [where incoming = "example_combined_form ''yeezy_350_zebra'' []"
      and sneaker_percent = "EText []" and box_percent = "EText ''88''" and video_percent = "EText ''95''"
      and fetch = backend_down]
    combined_validation_asymmetric [where incoming = "example_combined_form [] ''92''" and fetch = backend_down]
  by (simp add: example_combined_form_def fd_get_def)

text \<open>
  Claim C10. The health endpoint passes the backend's status and JSON body through only
  when the body parses as JSON. When \<^verbatim>\<open>fetch\<close> throws, and when the body is not JSON
  (whatever the status), it returns status 502 with the body
  \<^verbatim>\<open>{status: "error", error: String(err)}\<close>. A body that parses is passed through with
  the backend's status, for every status that a response with a body may carry.
\<close>

theorem health_passes_json_only:
  "(fetch health_call = Inl err \<longrightarrow>
      GET fetch = Inr \<lparr>status = 502,
        body = JObj [(''status'', JStr ''error''), (''error'', JStr (exn_String err))]\<rparr>)
   \<and> (fetch health_call = Inr res \<and> res_json res = Inl err \<longrightarrow>
      GET fetch = Inr \<lparr>status = 502,
        body = JObj [(''status'', JStr ''error''), (''error'', JStr (exn_String err))]\<rparr>)
   \<and> (fetch health_call = Inr res \<and> res_json res = Inr data
        \<and> 200 \<le> res_status res \<and> res_status res \<le> 599
        \<and> res_status res \<noteq> 204 \<and> res_status res \<noteq> 205 \<and> res_status res \<noteq> 304 \<longrightarrow>
      GET fetch = Inr \<lparr>status = res_status res, body = data\<rparr>)"
  by (simp add: GET_def GET_try_def NextResponse_json_def)

theorem health_passes_json_only_witness:
  "GET backend_down = Inr \<lparr>status = 502,
        body = JObj [(''status'', JStr ''error''), (''error'', JStr ''TypeError: fetch failed'')]\<rparr>
   \<and> GET (backend_answers (answer_404 ''not found'')) = Inr \<lparr>status = 502,
        body = JObj [(''status'', JStr ''error''),
                     (''error'', JStr ''SyntaxError: Unexpected end of JSON input'')]\<rparr>
   \<and> GET (backend_answers \<lparr>res_status = 503, res_text = Inr ''{}'', res_json = Inr (JObj [])\<rparr>) =
       Inr \<lparr>status = 503, body = JObj []\<rparr>"
  using health_passes_json_only [where fetch = backend_down and err = "Exn ''TypeError'' ''fetch failed''"]
    health_passes_json_only [where fetch = "backend_answers (answer_404 ''not found'')"
      and res = "answer_404 ''not found''" and err = not_json]
    health_passes_json_only [where fetch = "backend_answers \<lparr>res_status = 503, res_text = Inr ''{}'', res_json = Inr (JObj [])\<rparr>"
      and res = "\<lparr>res_status = 503, res_text = Inr ''{}'', res_json = Inr (JObj [])\<rparr>" and data = "JObj []"]
  by (simp add: backend_down_def backend_answers_def answer_404_def not_json_def)

section \<open>The upload form: properties\<close>

text \<open>
  Claim C8. Removing the file of a slot clears the file stored for that slot, the
  result stored for that category and the error text (the form has one error text; all
  of it is cleared).
\<close>

theorem handleRemove_clears:
  "get_slot key (uploads (handleRemove key st)) = None
   \<and> get_slot key (results (handleRemove key st)) = None
   \<and> error (handleRemove key st) = []"
  by (cases key) (simp_all add: handleRemove_def)

theorem handleRemove_clears_witness:
  "get_slot Box (uploads example_state) = Some example_file
   \<and> get_slot Box (results example_state) = Some (JObj [(''verdict'', JStr ''FAKE'')])
   \<and> error example_state = ''box: label not found''
   \<and> get_slot Box (uploads (handleRemove Box example_state)) = None
   \<and> get_slot Box (results (handleRemove Box example_state)) = None
   \<and> error (handleRemove Box example_state) = []"
  using handleRemove_clears [of Box example_state]
  by (simp add: example_state_def)

section \<open>The results page: properties\<close>

text \<open>
  Claim C3, as stated: the headline is \<^verbatim>\<open>AUTHENTIC\<close> or \<^verbatim>\<open>COUNTERFEIT\<close> for these two
  verdicts and \<^verbatim>\<open>INCONCLUSIVE\<close> for every other verdict. It fails for any other verdict
  that is not empty: the last branch is \<^verbatim>\<open>results.combined?.verdict || 'INCONCLUSIVE'\<close>,
  so the verdict \<^verbatim>\<open>SUSPICIOUS\<close> is shown as it is.
\<close>

theorem overallVerdict_counterexample:
  "opt_member ''verdict'' (combined (combined_with (JStr ''SUSPICIOUS''))) = Some (JStr ''SUSPICIOUS'')
   \<and> JStr ''SUSPICIOUS'' \<noteq> JStr ''AUTHENTIC''
   \<and> JStr ''SUSPICIOUS'' \<noteq> JStr ''COUNTERFEIT''
   \<and> overallVerdict (combined_with (JStr ''SUSPICIOUS'')) \<noteq> JStr ''INCONCLUSIVE''"
  by (simp add: overallVerdict_def combined_with_def no_results_def)

text \<open>
  Claim C3, amended. The headline is \<^verbatim>\<open>AUTHENTIC\<close> or \<^verbatim>\<open>COUNTERFEIT\<close> for these two
  verdicts; every other verdict that is truthy is the headline itself; the headline is
  \<^verbatim>\<open>INCONCLUSIVE\<close> when the verdict is missing or falsy (the empty string), and when
  there is no combined payload.
\<close>

theorem overallVerdict_cases:
  "(opt_member ''verdict'' (combined r) = Some (JStr ''AUTHENTIC'') \<longrightarrow>
      overallVerdict r = JStr ''AUTHENTIC'')
   \<and> (opt_member ''verdict'' (combined r) = Some (JStr ''COUNTERFEIT'') \<longrightarrow>
      overallVerdict r = JStr ''COUNTERFEIT'')
   \<and> (opt_member ''verdict'' (combined r) = Some v \<and> truthy v \<longrightarrow> overallVerdict r = v)
   \<and> (\<not> truthy_opt (opt_member ''verdict'' (combined r)) \<longrightarrow> overallVerdict r = JStr ''INCONCLUSIVE'')
   \<and> (combined r = None \<longrightarrow> overallVerdict r = JStr ''INCONCLUSIVE'')"
  by (cases "opt_member ''verdict'' (combined r)") (auto simp: overallVerdict_def)

theorem overallVerdict_cases_witness:
  "overallVerdict (combined_with (JStr ''AUTHENTIC'')) = JStr ''AUTHENTIC''
   \<and> overallVerdict (combined_with (JStr ''COUNTERFEIT'')) = JStr ''COUNTERFEIT''
   \<and> overallVerdict (combined_with (JStr ''SUSPICIOUS'')) = JStr ''SUSPICIOUS''
   \<and> overallVerdict (combined_with (JStr [])) = JStr ''INCONCLUSIVE''
   \<and> overallVerdict no_results = JStr ''INCONCLUSIVE''"
  using overallVerdict_cases [where r = "combined_with (JStr ''AUTHENTIC'')"]
    overallVerdict_cases [where r = "combined_with (JStr ''COUNTERFEIT'')"]
    overallVerdict_cases [where r = "combined_with (JStr ''SUSPICIOUS'')" and v = "JStr ''SUSPICIOUS''"]
    overallVerdict_cases [where r = "combined_with (JStr [])"]
    overallVerdict_cases [where r = no_results]
  by (simp add: combined_with_def no_results_def)

section \<open>Decoding undoes encoding\<close>

subsection \<open>Percent escapes\<close>






lemma char_of_hex_parts: "char_of (16 * ((of_char c :: nat) div 16) + (of_char c :: nat) mod 16) = c"
  by simp










declare utf8_ok.simps(2) [simp del]





























declare lex.simps(2) [simp del]






















subsection \<open>The query of the address\<close>


























subsection \<open>Loading the results page\<close>



lemma run_updates_queued_fails:
  "data = Some d \<Longrightarrow> d \<noteq> [] \<Longrightarrow> parse_param d = Inl f \<Longrightarrow> run_updates prev (queued key data) = Inl f"
  by (simp add: queued_def)














section \<open>Submission: properties\<close>






lemma promise_all_three:
  "promise_all [(k1, Inr a), (k2, Inr b), (k3, Inr c)] = Inr [(k1, a), (k2, b), (k3, c)]"
  by simp























end
